theory Spec2Isabelle
  imports Complex_Main "HOL-Library.Log_Nat" "HOL-Library.Multiset"
begin

section \<open>Data model (lms/models.py)\<close>

text \<open>
  Every Django model is a record of its columns and every table a list of rows, in the
  order in which the database scans the table (the order of insertion). No model of this
  application declares a \<open>Meta.ordering\<close> and no view calls \<open>order_by\<close>: a query on one
  table returns its rows in table order, while a query that joins another table
  (\<open>class_obj__grade\<close>, \<open>student__parent\<close>, \<open>assessment__teacher\<close>) or tests membership
  in a subquery (\<open>subject__in\<close>, \<open>student__in\<close>) returns them in whatever order the
  database's query planner picks. Such a query denotes the bag (multiset) of its rows, and
  a view that slices it takes the planner's order as a parameter. Primary keys are natural numbers,
  foreign keys hold the primary key of the row they point to, a nullable foreign key is an
  option. Dates and datetimes are integers (a day number, a timestamp). Columns that no
  view reads (uploaded files, free-text descriptions, contact details) are left out of the
  records; every column that a query of lms/views.py filters on is present.
\<close>

type_synonym pk = nat
type_synonym date = int
type_synonym datetime = int

datatype error = DoesNotExist | MultipleObjectsReturned | IntegrityError | ZeroDivisionError

record user =
  user_pk :: pk
  username :: string
  role :: string

record student =
  student_pk :: pk
  student_user :: pk
  student_id :: string
  student_grade :: string
  student_section :: string
  student_parent :: "pk option"

record teacher =
  teacher_pk :: pk
  teacher_user :: pk
  teacher_id :: string
  teacher_subjects :: "pk list"

record parent =
  parent_pk :: pk
  parent_user :: pk
  parent_id :: string

record academic_year =
  academic_year_pk :: pk
  academic_year_name :: string
  academic_year_is_active :: bool

record class_row =
  class_pk :: pk
  class_grade :: string
  class_section :: string
  class_academic_year :: pk
  class_class_teacher :: "pk option"

record subject =
  subject_pk :: pk
  subject_name :: string
  subject_code :: string
  subject_grade :: string

record timetable =
  timetable_pk :: pk
  timetable_class_obj :: pk
  timetable_day :: string
  timetable_period :: int
  timetable_subject :: pk

record content =
  content_pk :: pk
  content_title :: string
  content_type :: string
  content_subject :: pk
  content_grade :: string
  content_uploaded_by :: pk
  content_upload_date :: datetime
  content_is_homework :: bool

record assessment =
  assessment_pk :: pk
  assessment_title :: string
  assessment_type :: string
  assessment_subject :: pk
  assessment_class_obj :: pk
  assessment_teacher :: pk
  assessment_scheduled_date :: datetime
  assessment_total_marks :: int

record submission =
  submission_pk :: pk
  submission_assessment :: pk
  submission_student :: pk
  submission_submitted_at :: datetime
  submission_marks_obtained :: "int option"

record attendance =
  attendance_pk :: pk
  attendance_student :: pk
  attendance_date :: date
  attendance_status :: string
  attendance_marked_by :: pk
  attendance_class_obj :: pk

record fee_payment =
  fee_payment_pk :: pk
  fee_payment_student :: pk
  fee_payment_fee_structure :: pk
  fee_payment_is_paid :: bool

record announcement =
  announcement_pk :: pk
  announcement_title :: string
  announcement_created_by :: pk
  announcement_created_date :: datetime
  announcement_target_audience :: string
  announcement_is_active :: bool

record db =
  students :: "student list"
  teachers :: "teacher list"
  parents :: "parent list"
  academic_years :: "academic_year list"
  classes :: "class_row list"
  subjects :: "subject list"
  timetables :: "timetable list"
  contents :: "content list"
  assessments :: "assessment list"
  submissions :: "submission list"
  attendances :: "attendance list"
  fee_payments :: "fee_payment list"
  announcements :: "announcement list"
  content_seq :: pk
  submission_seq :: pk
  attendance_seq :: pk

text \<open>
  The three \<open>_seq\<close> fields are the key sequences of the tables into which the views
  insert (the primary keys are \<open>AUTOINCREMENT\<close>): the largest primary key the table has
  ever issued, which survives the deletion of the row that held it.
\<close>

section \<open>Queries of the object-relational mapper\<close>

text \<open>
  \<open>Model.objects.get(cond)\<close> returns the one row that satisfies the condition, raises
  \<open>DoesNotExist\<close> when there is none and \<open>MultipleObjectsReturned\<close> when there are
  several. \<open>Model.objects.filter(cond)\<close> keeps the rows that satisfy it, in table order.
\<close>

definition objects_get :: "('a \<Rightarrow> bool) \<Rightarrow> 'a list \<Rightarrow> error + 'a" where
  "objects_get cond rows =
     (case filter cond rows of
        [] \<Rightarrow> Inl DoesNotExist
      | [x] \<Rightarrow> Inr x
      | _ # _ # _ \<Rightarrow> Inl MultipleObjectsReturned)"

text \<open>\<open>Student.objects.get(user=user)\<close>, and the same for the two other profiles.\<close>

definition Student_objects_get :: "db \<Rightarrow> user \<Rightarrow> error + student" where
  "Student_objects_get d u = objects_get (\<lambda>s. student_user s = user_pk u) (students d)"

definition Teacher_objects_get :: "db \<Rightarrow> user \<Rightarrow> error + teacher" where
  "Teacher_objects_get d u = objects_get (\<lambda>t. teacher_user t = user_pk u) (teachers d)"

definition Parent_objects_get :: "db \<Rightarrow> user \<Rightarrow> error + parent" where
  "Parent_objects_get d u = objects_get (\<lambda>p. parent_user p = user_pk u) (parents d)"

text \<open>
  Following a foreign key (the join behind \<open>class_obj__grade\<close>, \<open>student__parent\<close>,
  \<open>assessment__teacher\<close>): the row of the target table with that primary key.
\<close>

definition class_of :: "db \<Rightarrow> pk \<Rightarrow> class_row option" where
  "class_of d k = find (\<lambda>c. class_pk c = k) (classes d)"

definition student_of :: "db \<Rightarrow> pk \<Rightarrow> student option" where
  "student_of d k = find (\<lambda>s. student_pk s = k) (students d)"

definition assessment_of :: "db \<Rightarrow> pk \<Rightarrow> assessment option" where
  "assessment_of d k = find (\<lambda>a. assessment_pk a = k) (assessments d)"

text \<open>\<open>class_obj__grade=g, class_obj__section=s\<close> on a row whose class is \<open>k\<close>.\<close>

definition class_obj_is :: "db \<Rightarrow> string \<Rightarrow> string \<Rightarrow> pk \<Rightarrow> bool" where
  "class_obj_is d g s k =
     (case class_of d k of
        None \<Rightarrow> False
      | Some c \<Rightarrow> class_grade c = g \<and> class_section c = s)"

text \<open>\<open>student__parent=parent\<close> on a row whose student is \<open>k\<close>.\<close>

definition student_parent_is :: "db \<Rightarrow> parent \<Rightarrow> pk \<Rightarrow> bool" where
  "student_parent_is d p k =
     (case student_of d k of
        None \<Rightarrow> False
      | Some s \<Rightarrow> student_parent s = Some (parent_pk p))"

text \<open>\<open>assessment__teacher=teacher\<close> on a row whose assessment is \<open>k\<close>.\<close>

definition assessment_teacher_is :: "db \<Rightarrow> teacher \<Rightarrow> pk \<Rightarrow> bool" where
  "assessment_teacher_is d t k =
     (case assessment_of d k of
        None \<Rightarrow> False
      | Some a \<Rightarrow> assessment_teacher a = teacher_pk t)"

text \<open>\<open>teacher.subjects.all()\<close>: the subjects linked to the teacher (many-to-many).\<close>

definition teacher_subjects_all :: "db \<Rightarrow> teacher \<Rightarrow> subject list" where
  "teacher_subjects_all d t = filter (\<lambda>s. subject_pk s \<in> set (teacher_subjects t)) (subjects d)"

text \<open>
  The handler \<open>except X.DoesNotExist: return Y.objects.none()\<close> around a lookup: only
  \<open>DoesNotExist\<close> is caught, any other exception leaves the view.
\<close>

definition except_DoesNotExist_none :: "error + 'a list \<Rightarrow> error + 'a list" where
  "except_DoesNotExist_none r =
     (case r of
        Inr rows \<Rightarrow> Inr rows
      | Inl e \<Rightarrow> if e = DoesNotExist then Inr [] else Inl e)"

text \<open>The same handler around a query that denotes a bag of rows.\<close>

definition except_DoesNotExist_none_bag :: "error + 'a multiset \<Rightarrow> error + 'a multiset" where
  "except_DoesNotExist_none_bag r =
     (case r of
        Inr rows \<Rightarrow> Inr rows
      | Inl e \<Rightarrow> if e = DoesNotExist then Inr {#} else Inl e)"

section \<open>Role-scoped listings (get_queryset of the viewsets, lms/views.py)\<close>

definition StudentViewSet_get_queryset :: "db \<Rightarrow> user \<Rightarrow> error + student list" where
  "StudentViewSet_get_queryset d u =
     (if role u = ''student'' then
        Inr (filter (\<lambda>s. student_user s = user_pk u) (students d))
      else if role u = ''parent'' then
        except_DoesNotExist_none
          (case Parent_objects_get d u of
             Inl e \<Rightarrow> Inl e
           | Inr p \<Rightarrow> Inr (filter (\<lambda>s. student_parent s = Some (parent_pk p)) (students d)))
      else Inr (students d))"

definition TimetableViewSet_get_queryset :: "db \<Rightarrow> user \<Rightarrow> error + timetable multiset" where
  "TimetableViewSet_get_queryset d u =
     (if role u = ''student'' then
        except_DoesNotExist_none_bag
          (case Student_objects_get d u of
             Inl e \<Rightarrow> Inl e
           | Inr s \<Rightarrow>
               Inr (mset (filter
                            (\<lambda>t. class_obj_is d (student_grade s) (student_section s)
                                   (timetable_class_obj t))
                            (timetables d))))
      else if role u = ''teacher'' then
        except_DoesNotExist_none_bag
          (case Teacher_objects_get d u of
             Inl e \<Rightarrow> Inl e
           | Inr t \<Rightarrow>
               Inr (mset (filter
                            (\<lambda>r. timetable_subject r
                                   \<in> set (map subject_pk (teacher_subjects_all d t)))
                            (timetables d))))
      else Inr (mset (timetables d)))"

definition ContentViewSet_get_queryset :: "db \<Rightarrow> user \<Rightarrow> error + content list" where
  "ContentViewSet_get_queryset d u =
     (if role u = ''student'' then
        except_DoesNotExist_none
          (case Student_objects_get d u of
             Inl e \<Rightarrow> Inl e
           | Inr s \<Rightarrow> Inr (filter (\<lambda>c. content_grade c = student_grade s) (contents d)))
      else Inr (contents d))"

definition AssessmentViewSet_get_queryset :: "db \<Rightarrow> user \<Rightarrow> error + assessment multiset" where
  "AssessmentViewSet_get_queryset d u =
     (if role u = ''student'' then
        except_DoesNotExist_none_bag
          (case Student_objects_get d u of
             Inl e \<Rightarrow> Inl e
           | Inr s \<Rightarrow>
               Inr (mset (filter
                            (\<lambda>a. class_obj_is d (student_grade s) (student_section s)
                                   (assessment_class_obj a))
                            (assessments d))))
      else if role u = ''teacher'' then
        except_DoesNotExist_none_bag
          (case Teacher_objects_get d u of
             Inl e \<Rightarrow> Inl e
           | Inr t \<Rightarrow>
               Inr (mset (filter (\<lambda>a. assessment_teacher a = teacher_pk t) (assessments d))))
      else Inr (mset (assessments d)))"

definition SubmissionViewSet_get_queryset :: "db \<Rightarrow> user \<Rightarrow> error + submission multiset" where
  "SubmissionViewSet_get_queryset d u =
     (if role u = ''student'' then
        except_DoesNotExist_none_bag
          (case Student_objects_get d u of
             Inl e \<Rightarrow> Inl e
           | Inr s \<Rightarrow>
               Inr (mset (filter (\<lambda>b. submission_student b = student_pk s) (submissions d))))
      else if role u = ''teacher'' then
        except_DoesNotExist_none_bag
          (case Teacher_objects_get d u of
             Inl e \<Rightarrow> Inl e
           | Inr t \<Rightarrow>
               Inr (mset (filter (\<lambda>b. assessment_teacher_is d t (submission_assessment b))
                            (submissions d))))
      else Inr (mset (submissions d)))"

definition AttendanceViewSet_get_queryset :: "db \<Rightarrow> user \<Rightarrow> error + attendance list" where
  "AttendanceViewSet_get_queryset d u =
     (if role u = ''student'' then
        except_DoesNotExist_none
          (case Student_objects_get d u of
             Inl e \<Rightarrow> Inl e
           | Inr s \<Rightarrow> Inr (filter (\<lambda>a. attendance_student a = student_pk s) (attendances d)))
      else if role u = ''teacher'' then
        except_DoesNotExist_none
          (case Teacher_objects_get d u of
             Inl e \<Rightarrow> Inl e
           | Inr t \<Rightarrow> Inr (filter (\<lambda>a. attendance_marked_by a = teacher_pk t) (attendances d)))
      else Inr (attendances d))"

definition FeePaymentViewSet_get_queryset :: "db \<Rightarrow> user \<Rightarrow> error + fee_payment multiset" where
  "FeePaymentViewSet_get_queryset d u =
     (if role u = ''student'' then
        except_DoesNotExist_none_bag
          (case Student_objects_get d u of
             Inl e \<Rightarrow> Inl e
           | Inr s \<Rightarrow>
               Inr (mset (filter (\<lambda>f. fee_payment_student f = student_pk s) (fee_payments d))))
      else if role u = ''parent'' then
        except_DoesNotExist_none_bag
          (case Parent_objects_get d u of
             Inl e \<Rightarrow> Inl e
           | Inr p \<Rightarrow>
               Inr (mset (filter (\<lambda>f. student_parent_is d p (fee_payment_student f))
                            (fee_payments d))))
      else Inr (mset (fee_payments d)))"

section \<open>Python floating-point arithmetic\<close>

text \<open>
  \<open>calculate_attendance_percentage\<close> divides two counts, multiplies by 100 and calls
  \<open>round(x, 2)\<close>, all in binary64 floating point. A float is modelled by the rational
  number it denotes, and every operation rounds its exact result to the nearest binary64
  number, ties to even, as IEEE 754 and CPython do. Overflow is not modelled: every value
  of this development lies between 0 and 100.
\<close>

definition pow2 :: "int \<Rightarrow> rat" where
  "pow2 e = (if 0 \<le> e then 2 ^ nat e else 1 / 2 ^ nat (- e))"

definition round_half_even :: "rat \<Rightarrow> int" where
  "round_half_even x =
     (let f = \<lfloor>x\<rfloor>; r = x - of_int f
      in if r < 1 / 2 then f else if 1 / 2 < r then f + 1 else if even f then f else f + 1)"

text \<open>For \<open>x > 0\<close>, the exponent \<open>e\<close> with \<open>2^e \<le> x < 2^(e+1)\<close>.\<close>

definition float_exponent :: "rat \<Rightarrow> int" where
  "float_exponent x =
     (let (a, b) = quotient_of x; e = bitlen a - bitlen b
      in if pow2 e \<le> x then e else e - 1)"

text \<open>
  The binary64 number nearest to \<open>x\<close>: 53 significant bits, and a fixed spacing of
  \<open>2^-1074\<close> below the smallest normal number \<open>2^-1022\<close>.
\<close>

definition to_float :: "rat \<Rightarrow> rat" where
  "to_float x =
     (if x = 0 then 0
      else let e = max (float_exponent \<bar>x\<bar>) (- 1022); ulp = pow2 (e - 52)
           in of_int (round_half_even (x / ulp)) * ulp)"

text \<open>\<open>a / b\<close> on two ints: correctly rounded true division, or \<open>ZeroDivisionError\<close>.\<close>

definition int_truediv :: "nat \<Rightarrow> nat \<Rightarrow> error + rat" where
  "int_truediv a b =
     (if b = 0 then Inl ZeroDivisionError else Inr (to_float (of_nat a / of_nat b)))"

definition float_mul :: "rat \<Rightarrow> rat \<Rightarrow> rat" where
  "float_mul x y = to_float (x * y)"

text \<open>
  \<open>round(x, n)\<close> on a float: CPython converts the exact value of \<open>x\<close> to the decimal with
  \<open>n\<close> digits after the point nearest to it (ties to even), and reads that decimal back
  as a float.
\<close>

definition py_round :: "rat \<Rightarrow> nat \<Rightarrow> rat" where
  "py_round x n = to_float (of_int (round_half_even (x * 10 ^ n)) / 10 ^ n)"

section \<open>The attendance percentage (lms/views.py, calculate_attendance_percentage)\<close>

definition calculate_attendance_percentage :: "db \<Rightarrow> student \<Rightarrow> error + rat" where
  "calculate_attendance_percentage d s =
     (let total_days =
            length (filter (\<lambda>a. attendance_student a = student_pk s) (attendances d))
      in if total_days = 0 then Inr 0
         else
           let present_days =
                 length (filter (\<lambda>a. attendance_student a = student_pk s
                                      \<and> attendance_status a = ''present'')
                           (attendances d))
           in case int_truediv present_days total_days of
                Inl e \<Rightarrow> Inl e
              | Inr q \<Rightarrow> Inr (py_round (float_mul q 100) 2))"

text \<open>
  The claim's own words, for comparison: the student's Attendance rows, and those of them
  whose status is \<open>present\<close>.
\<close>

definition attendance_rows :: "db \<Rightarrow> student \<Rightarrow> attendance list" where
  "attendance_rows d s = filter (\<lambda>a. attendance_student a = student_pk s) (attendances d)"

definition present_rows :: "db \<Rightarrow> student \<Rightarrow> attendance list" where
  "present_rows d s = filter (\<lambda>a. attendance_status a = ''present'') (attendance_rows d s)"

section \<open>Inserting rows\<close>

text \<open>
  \<open>Model.objects.create(**validated_data)\<close>, which \<open>serializer.save\<close> calls: the row gets
  the next primary key, an \<open>auto_now_add\<close> column gets the current time, and the insert
  raises \<open>IntegrityError\<close>, storing nothing, when a \<open>unique_together\<close> constraint of the
  model would be violated. The row comes from the serializer's validated data, whose
  foreign keys the serializer has already resolved to existing rows.

  The next primary key is one more than the largest key the table has ever held: the
  larger of its key sequence and the keys it holds now. A key is never issued twice.
\<close>

definition next_pk :: "pk \<Rightarrow> pk list \<Rightarrow> pk" where
  "next_pk seq ks = Suc (max seq (fold max ks 0))"

text \<open>Content has no uniqueness constraint; \<open>upload_date\<close> is \<open>auto_now_add\<close>.\<close>

definition Content_objects_create :: "db \<Rightarrow> datetime \<Rightarrow> content \<Rightarrow> db \<times> (error + content)" where
  "Content_objects_create d now v =
     (let row = v\<lparr>content_pk := next_pk (content_seq d) (map content_pk (contents d)),
                  content_upload_date := now\<rparr>
      in (d\<lparr>contents := contents d @ [row], content_seq := content_pk row\<rparr>, Inr row))"

text \<open>Submission: \<open>unique_together = ['assessment', 'student']\<close>; \<open>submitted_at\<close> is \<open>auto_now_add\<close>.\<close>

definition Submission_objects_create ::
  "db \<Rightarrow> datetime \<Rightarrow> submission \<Rightarrow> db \<times> (error + submission)" where
  "Submission_objects_create d now v =
     (if list_ex (\<lambda>b. submission_assessment b = submission_assessment v
                      \<and> submission_student b = submission_student v)
           (submissions d)
      then (d, Inl IntegrityError)
      else
        let row = v\<lparr>submission_pk :=
                      next_pk (submission_seq d) (map submission_pk (submissions d)),
                    submission_submitted_at := now\<rparr>
        in (d\<lparr>submissions := submissions d @ [row], submission_seq := submission_pk row\<rparr>,
            Inr row))"

text \<open>Attendance: \<open>unique_together = ['student', 'date']\<close>.\<close>

definition Attendance_objects_create :: "db \<Rightarrow> attendance \<Rightarrow> db \<times> (error + attendance)" where
  "Attendance_objects_create d v =
     (if list_ex (\<lambda>a. attendance_student a = attendance_student v
                      \<and> attendance_date a = attendance_date v)
           (attendances d)
      then (d, Inl IntegrityError)
      else
        let row = v\<lparr>attendance_pk :=
                      next_pk (attendance_seq d) (map attendance_pk (attendances d))\<rparr>
        in (d\<lparr>attendances := attendances d @ [row], attendance_seq := attendance_pk row\<rparr>,
            Inr row))"

section \<open>Creating through the viewsets (perform_create, lms/views.py)\<close>

text \<open>
  \<open>perform_create\<close> receives the serializer after validation; \<open>v\<close> is its validated data.
  \<open>serializer.save(field=x)\<close> overrides that field of the validated data and inserts the
  row. The result is the new state and either the exception that left the method or the
  saved instance (\<open>None\<close> when the method returned without saving).
\<close>

definition saved :: "db \<times> (error + 'a) \<Rightarrow> db \<times> (error + 'a option)" where
  "saved out = (case out of (d', Inl e) \<Rightarrow> (d', Inl e) | (d', Inr row) \<Rightarrow> (d', Inr (Some row)))"

definition ContentViewSet_perform_create ::
  "db \<Rightarrow> user \<Rightarrow> datetime \<Rightarrow> content \<Rightarrow> db \<times> (error + content option)" where
  "ContentViewSet_perform_create d u now v =
     (if role u = ''teacher'' then
        (case Teacher_objects_get d u of
           Inl e \<Rightarrow> (d, Inl e)
         | Inr t \<Rightarrow> saved (Content_objects_create d now (v\<lparr>content_uploaded_by := teacher_pk t\<rparr>)))
      else (d, Inr None))"

definition SubmissionViewSet_perform_create ::
  "db \<Rightarrow> user \<Rightarrow> datetime \<Rightarrow> submission \<Rightarrow> db \<times> (error + submission option)" where
  "SubmissionViewSet_perform_create d u now v =
     (if role u = ''student'' then
        (case Student_objects_get d u of
           Inl e \<Rightarrow> (d, Inl e)
         | Inr s \<Rightarrow> saved (Submission_objects_create d now (v\<lparr>submission_student := student_pk s\<rparr>)))
      else (d, Inr None))"

definition AttendanceViewSet_perform_create ::
  "db \<Rightarrow> user \<Rightarrow> attendance \<Rightarrow> db \<times> (error + attendance option)" where
  "AttendanceViewSet_perform_create d u v =
     (if role u = ''teacher'' then
        (case Teacher_objects_get d u of
           Inl e \<Rightarrow> (d, Inl e)
         | Inr t \<Rightarrow> saved (Attendance_objects_create d (v\<lparr>attendance_marked_by := teacher_pk t\<rparr>)))
      else (d, Inr None))"

text \<open>
  The create action that every \<open>ModelViewSet\<close> inherits from the framework
  (rest_framework.mixins.CreateModelMixin.create), after validation has passed: it calls
  \<open>perform_create\<close> and answers \<open>201 Created\<close> when that method returns, whatever it did.
\<close>

definition create_status :: "db \<times> (error + 'a option) \<Rightarrow> error + nat" where
  "create_status out = (case snd out of Inl e \<Rightarrow> Inl e | Inr _ \<Rightarrow> Inr 201)"

section \<open>Dashboards (lms/views.py)\<close>

text \<open>
  A dashboard answers with a status code and a body: the dictionary the view builds, or
  \<open>{'error': message}\<close>. The serializers only render rows, so a body holds the rows
  themselves. \<open>Response(data)\<close> without a status is \<open>200 OK\<close>.
\<close>

datatype body =
    Error_body string
  | Admin_body
      (total_students: nat) (total_teachers: nat) (total_parents: nat) (total_classes: nat)
      (total_subjects: nat) (active_academic_year: "academic_year option")
      (recent_announcements: "announcement list")
  | Teacher_body teacher "subject list" "assessment list" "content list"
  | Student_body student "timetable multiset" "assessment list" "content list" rat
  | Parent_body parent "student list" "(student \<times> rat) list" "fee_payment multiset"

datatype response = Response (status: nat) (data: body)

text \<open>
  \<open>queryset.first()\<close> on a queryset without ordering orders it by primary key: the row
  with the smallest primary key, or \<open>None\<close> on an empty queryset.
\<close>

definition queryset_first :: "('a \<Rightarrow> pk) \<Rightarrow> 'a list \<Rightarrow> 'a option" where
  "queryset_first key rows =
     (case rows of
        [] \<Rightarrow> None
      | x # xs \<Rightarrow> Some (fold (\<lambda>y m. if key y < key m then y else m) xs x))"

definition admin_dashboard :: "db \<Rightarrow> response" where
  "admin_dashboard d =
     Response 200
       (Admin_body
          (length (students d))
          (length (teachers d))
          (length (parents d))
          (length (classes d))
          (length (subjects d))
          (if filter academic_year_is_active (academic_years d) \<noteq> []
           then queryset_first academic_year_pk (filter academic_year_is_active (academic_years d))
           else None)
          (take 5 (filter announcement_is_active (announcements d))))"

definition teacher_dashboard :: "db \<Rightarrow> datetime \<Rightarrow> user \<Rightarrow> error + response" where
  "teacher_dashboard d now u =
     (case Teacher_objects_get d u of
        Inr t \<Rightarrow>
          Inr (Response 200
                 (Teacher_body t
                    (teacher_subjects_all d t)
                    (take 5 (filter (\<lambda>a. assessment_teacher a = teacher_pk t
                                          \<and> now \<le> assessment_scheduled_date a)
                               (assessments d)))
                    (take 5 (filter (\<lambda>c. content_uploaded_by c = teacher_pk t) (contents d)))))
      | Inl e \<Rightarrow>
          if e = DoesNotExist then Inr (Response 404 (Error_body ''Teacher profile not found''))
          else Inl e)"

text \<open>
  \<open>upcoming_assessments\<close> of the student dashboard slices a query that joins the class
  table: \<open>join_order\<close> is the order in which the database returns the rows of that join.
\<close>

definition student_dashboard ::
  "(assessment list \<Rightarrow> assessment list) \<Rightarrow> db \<Rightarrow> datetime \<Rightarrow> user \<Rightarrow> error + response" where
  "student_dashboard join_order d now u =
     (case Student_objects_get d u of
        Inr s \<Rightarrow>
          (case calculate_attendance_percentage d s of
             Inl e \<Rightarrow> Inl e
           | Inr pct \<Rightarrow>
               Inr (Response 200
                      (Student_body s
                         (mset (filter
                                  (\<lambda>t. class_obj_is d (student_grade s) (student_section s)
                                         (timetable_class_obj t))
                                  (timetables d)))
                         (take 5
                            (join_order
                               (filter
                                  (\<lambda>a. class_obj_is d (student_grade s) (student_section s)
                                         (assessment_class_obj a)
                                        \<and> now \<le> assessment_scheduled_date a)
                                  (assessments d))))
                         (take 5 (filter (\<lambda>c. content_grade c = student_grade s) (contents d)))
                         pct)))
      | Inl e \<Rightarrow>
          if e = DoesNotExist then Inr (Response 404 (Error_body ''Student profile not found''))
          else Inl e)"

text \<open>The list comprehension over the children of \<open>parent_dashboard\<close>.\<close>

fun children_attendance :: "db \<Rightarrow> student list \<Rightarrow> error + (student \<times> rat) list" where
  "children_attendance d [] = Inr []"
| "children_attendance d (child # rest) =
     (case calculate_attendance_percentage d child of
        Inl e \<Rightarrow> Inl e
      | Inr pct \<Rightarrow>
          (case children_attendance d rest of
             Inl e \<Rightarrow> Inl e
           | Inr others \<Rightarrow> Inr ((child, pct) # others)))"

definition parent_dashboard :: "db \<Rightarrow> user \<Rightarrow> error + response" where
  "parent_dashboard d u =
     (case Parent_objects_get d u of
        Inr p \<Rightarrow>
          (let children = filter (\<lambda>s. student_parent s = Some (parent_pk p)) (students d)
           in case children_attendance d children of
                Inl e \<Rightarrow> Inl e
              | Inr att \<Rightarrow>
                  Inr (Response 200
                         (Parent_body p children att
                            (mset (filter
                                     (\<lambda>f. fee_payment_student f \<in> set (map student_pk children)
                                           \<and> \<not> fee_payment_is_paid f)
                                     (fee_payments d))))))
      | Inl e \<Rightarrow>
          if e = DoesNotExist then Inr (Response 404 (Error_body ''Parent profile not found''))
          else Inl e)"

text \<open>
  The claim's own words for \<open>recent_announcements\<close>, for comparison with
  \<open>admin_dashboard\<close>: the active announcements, most recently created first, at most
  \<open>n\<close> of them.
\<close>

definition most_recent_active :: "nat \<Rightarrow> db \<Rightarrow> announcement list" where
  "most_recent_active n d =
     take n (sort_key (\<lambda>a. - announcement_created_date a)
               (filter announcement_is_active (announcements d)))"

text \<open>
  The claim's own words for a teacher's Content listing, for comparison with
  \<open>ContentViewSet_get_queryset\<close>: the Content rows that the teacher uploaded.
\<close>

definition content_authored_by :: "db \<Rightarrow> teacher \<Rightarrow> content list" where
  "content_authored_by d t = filter (\<lambda>c. content_uploaded_by c = teacher_pk t) (contents d)"

text \<open>Whether the caller has a profile row of each kind (a row whose \<open>user\<close> is the caller).\<close>

definition has_student_profile :: "db \<Rightarrow> user \<Rightarrow> bool" where
  "has_student_profile d u = list_ex (\<lambda>s. student_user s = user_pk u) (students d)"

definition has_teacher_profile :: "db \<Rightarrow> user \<Rightarrow> bool" where
  "has_teacher_profile d u = list_ex (\<lambda>t. teacher_user t = user_pk u) (teachers d)"

definition has_parent_profile :: "db \<Rightarrow> user \<Rightarrow> bool" where
  "has_parent_profile d u = list_ex (\<lambda>p. parent_user p = user_pk u) (parents d)"


section \<open>A sample database\<close>

text \<open>
  Three students (the first a child of the first parent, the two others children of the
  second), two teachers, four classes of which two are \<open>Grade 2\<close> \<open>B\<close> in different
  years, and users of each role with and without a profile. The first student has ten
  attendance rows, eight of them \<open>present\<close>; six active announcements were created at
  times 1 to 6.
\<close>

definition mk_attendance :: "pk \<Rightarrow> pk \<Rightarrow> string \<Rightarrow> attendance" where
  "mk_attendance k s st =
     \<lparr>attendance_pk = k, attendance_student = s, attendance_date = int k,
      attendance_status = st, attendance_marked_by = 1, attendance_class_obj = 1\<rparr>"

definition mk_announcement :: "pk \<Rightarrow> bool \<Rightarrow> announcement" where
  "mk_announcement k act =
     \<lparr>announcement_pk = k, announcement_title = ''notice'', announcement_created_by = 8,
      announcement_created_date = int k, announcement_target_audience = ''all'',
      announcement_is_active = act\<rparr>"

definition mk_content :: "pk \<Rightarrow> string \<Rightarrow> pk \<Rightarrow> content" where
  "mk_content k g t =
     \<lparr>content_pk = k, content_title = ''notes'', content_type = ''pdf'', content_subject = 1,
      content_grade = g, content_uploaded_by = t, content_upload_date = 0,
      content_is_homework = False\<rparr>"

definition mk_timetable :: "pk \<Rightarrow> pk \<Rightarrow> timetable" where
  "mk_timetable k c =
     \<lparr>timetable_pk = k, timetable_class_obj = c, timetable_day = ''monday'',
      timetable_period = int k, timetable_subject = 1\<rparr>"

definition mk_class :: "pk \<Rightarrow> string \<Rightarrow> string \<Rightarrow> pk \<Rightarrow> class_row" where
  "mk_class k g s y =
     \<lparr>class_pk = k, class_grade = g, class_section = s, class_academic_year = y,
      class_class_teacher = None\<rparr>"

definition mk_student :: "pk \<Rightarrow> pk \<Rightarrow> string \<Rightarrow> string \<Rightarrow> pk option \<Rightarrow> student" where
  "mk_student k u g s p =
     \<lparr>student_pk = k, student_user = u, student_id = ''S'', student_grade = g,
      student_section = s, student_parent = p\<rparr>"

definition mk_teacher :: "pk \<Rightarrow> pk \<Rightarrow> teacher" where
  "mk_teacher k u = \<lparr>teacher_pk = k, teacher_user = u, teacher_id = ''T'', teacher_subjects = [k]\<rparr>"

definition mk_submission :: "pk \<Rightarrow> pk \<Rightarrow> pk \<Rightarrow> submission" where
  "mk_submission k a s =
     \<lparr>submission_pk = k, submission_assessment = a, submission_student = s,
      submission_submitted_at = 0, submission_marks_obtained = None\<rparr>"

definition mk_fee_payment :: "pk \<Rightarrow> pk \<Rightarrow> fee_payment" where
  "mk_fee_payment k s =
     \<lparr>fee_payment_pk = k, fee_payment_student = s, fee_payment_fee_structure = 1,
      fee_payment_is_paid = False\<rparr>"

definition mk_user :: "pk \<Rightarrow> string \<Rightarrow> user" where
  "mk_user k r = \<lparr>user_pk = k, username = ''user'', role = r\<rparr>"

definition student_a :: student where
  "student_a = mk_student 1 1 ''Grade 1'' ''A'' (Some 1)"

definition student_b :: student where
  "student_b = mk_student 2 9 ''Grade 2'' ''B'' (Some 2)"

definition student_c :: student where
  "student_c = mk_student 4 12 ''Grade 1'' ''A'' (Some 2)"

definition parent_a :: parent where
  "parent_a = \<lparr>parent_pk = 1, parent_user = 3, parent_id = ''P1''\<rparr>"

definition parent_b :: parent where
  "parent_b = \<lparr>parent_pk = 2, parent_user = 11, parent_id = ''P2''\<rparr>"

definition school :: db where
  "school =
     \<lparr>students = [student_a, student_b, student_c],
      teachers = [mk_teacher 1 2, mk_teacher 2 4],
      parents = [parent_a, parent_b],
      academic_years =
        [\<lparr>academic_year_pk = 1, academic_year_name = ''2023-2024'',
          academic_year_is_active = True\<rparr>,
         \<lparr>academic_year_pk = 2, academic_year_name = ''2024-2025'',
          academic_year_is_active = False\<rparr>],
      classes = [mk_class 1 ''Grade 1'' ''A'' 1, mk_class 2 ''Grade 2'' ''B'' 1,
                 mk_class 3 ''Grade 1'' ''B'' 1, mk_class 4 ''Grade 2'' ''B'' 2],
      subjects =
        [\<lparr>subject_pk = 1, subject_name = ''Maths'', subject_code = ''M1'',
          subject_grade = ''Grade 1''\<rparr>,
         \<lparr>subject_pk = 2, subject_name = ''Physics'', subject_code = ''P2'',
          subject_grade = ''Grade 2''\<rparr>],
      timetables = [mk_timetable 1 1, mk_timetable 2 4, mk_timetable 3 3, mk_timetable 4 2,
                    mk_timetable 5 4],
      contents = [mk_content 1 ''Grade 1'' 1, mk_content 2 ''Grade 2'' 2],
      assessments =
        [\<lparr>assessment_pk = 1, assessment_title = ''Quiz 1'', assessment_type = ''quiz'',
          assessment_subject = 1, assessment_class_obj = 1, assessment_teacher = 1,
          assessment_scheduled_date = 100, assessment_total_marks = 20\<rparr>],
      submissions = [mk_submission 1 1 2],
      attendances =
        [mk_attendance 1 1 ''present'', mk_attendance 2 1 ''present'',
         mk_attendance 3 1 ''absent'', mk_attendance 4 1 ''present'',
         mk_attendance 5 1 ''present'', mk_attendance 6 1 ''late'',
         mk_attendance 7 1 ''present'', mk_attendance 8 1 ''present'',
         mk_attendance 9 1 ''present'', mk_attendance 10 1 ''present'',
         mk_attendance 11 2 ''present''],
      fee_payments = [mk_fee_payment 1 1, mk_fee_payment 2 2, mk_fee_payment 3 4,
                      mk_fee_payment 4 2],
      announcements =
        [mk_announcement 1 True, mk_announcement 2 True, mk_announcement 3 True,
         mk_announcement 4 True, mk_announcement 5 True, mk_announcement 6 True],
      content_seq = 2,
      submission_seq = 1,
      attendance_seq = 11\<rparr>"


section \<open>Verification\<close>

lemmas fixture_defs = school_def student_a_def student_b_def student_c_def parent_a_def
  parent_b_def mk_user_def mk_student_def mk_teacher_def mk_class_def mk_timetable_def
  mk_content_def mk_attendance_def mk_announcement_def mk_submission_def mk_fee_payment_def

lemma objects_get_single: "filter cond rows = [x] \<Longrightarrow> objects_get cond rows = Inr x"
  by (simp add: objects_get_def)

lemma objects_get_none: "\<not> list_ex cond rows \<Longrightarrow> objects_get cond rows = Inl DoesNotExist"
  by (simp add: objects_get_def list_ex_iff filter_empty_conv[THEN iffD2])

lemma no_student_get: "\<not> has_student_profile d u \<Longrightarrow> Student_objects_get d u = Inl DoesNotExist"
  by (simp add: has_student_profile_def Student_objects_get_def objects_get_none)

lemma no_teacher_get: "\<not> has_teacher_profile d u \<Longrightarrow> Teacher_objects_get d u = Inl DoesNotExist"
  by (simp add: has_teacher_profile_def Teacher_objects_get_def objects_get_none)

lemma no_parent_get: "\<not> has_parent_profile d u \<Longrightarrow> Parent_objects_get d u = Inl DoesNotExist"
  by (simp add: has_parent_profile_def Parent_objects_get_def objects_get_none)

lemmas profile_defs = has_student_profile_def has_teacher_profile_def has_parent_profile_def

subsection \<open>Timetable of a student\<close>

text \<open>
  Claim C3. A caller with role \<open>student\<close> who has a Student profile (the one Student row
  \<open>s\<close> whose user is the caller) lists exactly the Timetable rows whose class has the
  grade and section of \<open>s\<close>: the result is the bag of those rows of the table, each as
  often as the table holds it, and no row of the result has a class with another grade or
  section. The bag says nothing about the order, which the query does not fix.
\<close>

theorem timetable_student_scope:
  assumes "role u = ''student''"
    and "student_user s = user_pk u"
    and "filter (\<lambda>x. student_user x = user_pk u) (students d) = [s]"
  shows "\<exists>rows. TimetableViewSet_get_queryset d u = Inr rows
           \<and> rows = filter_mset
                 (\<lambda>t. \<exists>c. class_of d (timetable_class_obj t) = Some c
                      \<and> class_grade c = student_grade s \<and> class_section c = student_section s)
                 (mset (timetables d))
           \<and> (\<forall>t c. t \<in># rows \<and> class_of d (timetable_class_obj t) = Some c
                  \<longrightarrow> class_grade c = student_grade s \<and> class_section c = student_section s)"
proof -
  let ?P = "\<lambda>t. class_obj_is d (student_grade s) (student_section s) (timetable_class_obj t)"
  let ?Q = "\<lambda>t. \<exists>c. class_of d (timetable_class_obj t) = Some c
                      \<and> class_grade c = student_grade s \<and> class_section c = student_section s"
  have get: "Student_objects_get d u = Inr s"
    using assms(3) by (simp add: Student_objects_get_def objects_get_single)
  have res: "TimetableViewSet_get_queryset d u = Inr (mset (filter ?P (timetables d)))"
    using assms(1) get
    by (simp add: TimetableViewSet_get_queryset_def except_DoesNotExist_none_bag_def)
  have PQ: "?P = ?Q"
    by (rule ext) (simp add: class_obj_is_def split: option.splits)
  have bag: "mset (filter ?P (timetables d)) = filter_mset ?Q (mset (timetables d))"
    by (simp only: PQ mset_filter)
  have all: "\<forall>t c. t \<in># filter_mset ?Q (mset (timetables d))
                    \<and> class_of d (timetable_class_obj t) = Some c
                  \<longrightarrow> class_grade c = student_grade s \<and> class_section c = student_section s"
    by auto
  have res': "TimetableViewSet_get_queryset d u = Inr (filter_mset ?Q (mset (timetables d)))"
    using res bag by (simp only:)
  show ?thesis
  proof (intro exI conjI)
    show "TimetableViewSet_get_queryset d u = Inr (filter_mset ?Q (mset (timetables d)))" by (rule res')
    show "filter_mset ?Q (mset (timetables d)) = filter_mset ?Q (mset (timetables d))" by (rule refl)
    show "\<forall>t c. t \<in># filter_mset ?Q (mset (timetables d))
                    \<and> class_of d (timetable_class_obj t) = Some c
                  \<longrightarrow> class_grade c = student_grade s \<and> class_section c = student_section s" by (rule all)
  qed
qed

theorem timetable_student_scope_witness:
  "role (mk_user 9 ''student'') = ''student''
   \<and> student_user student_b = user_pk (mk_user 9 ''student'')
   \<and> filter (\<lambda>x. student_user x = user_pk (mk_user 9 ''student'')) (students school) = [student_b]
   \<and> TimetableViewSet_get_queryset school (mk_user 9 ''student'')
       = Inr {#mk_timetable 2 4, mk_timetable 4 2, mk_timetable 5 4#}"
proof -
  have h: "role (mk_user 9 ''student'') = ''student''"
    "student_user student_b = user_pk (mk_user 9 ''student'')"
    "filter (\<lambda>x. student_user x = user_pk (mk_user 9 ''student'')) (students school) = [student_b]"
    by (simp_all add: fixture_defs)
  from timetable_student_scope [OF h]
  have "TimetableViewSet_get_queryset school (mk_user 9 ''student'')
          = Inr (filter_mset
                 (\<lambda>t. \<exists>c. class_of school (timetable_class_obj t) = Some c
                      \<and> class_grade c = student_grade student_b
                      \<and> class_section c = student_section student_b)
                 (mset (timetables school)))"
    by blast
  also have "\<dots> = Inr {#mk_timetable 2 4, mk_timetable 4 2, mk_timetable 5 4#}"
    by (simp add: class_of_def fixture_defs)
  finally show ?thesis using h by simp
qed

subsection \<open>Fee payments of a parent's children\<close>

text \<open>
  Claim C4. A caller with role \<open>parent\<close> who has a Parent profile (the one Parent row
  \<open>p\<close> whose user is the caller) lists exactly the FeePayment rows whose student has
  \<open>p\<close> as its \<open>parent\<close>: the result is the bag of those rows, and no payment of another
  student is in it.
\<close>

theorem fee_payment_parent_scope:
  assumes "role u = ''parent''"
    and "parent_user p = user_pk u"
    and "filter (\<lambda>x. parent_user x = user_pk u) (parents d) = [p]"
  shows "\<exists>rows. FeePaymentViewSet_get_queryset d u = Inr rows
           \<and> rows = filter_mset
                 (\<lambda>f. \<exists>s. student_of d (fee_payment_student f) = Some s
                      \<and> student_parent s = Some (parent_pk p))
                 (mset (fee_payments d))
           \<and> (\<forall>f s. f \<in># rows \<and> student_of d (fee_payment_student f) = Some s
                  \<longrightarrow> student_parent s = Some (parent_pk p))"
proof -
  let ?P = "\<lambda>f. student_parent_is d p (fee_payment_student f)"
  let ?Q = "\<lambda>f. \<exists>s. student_of d (fee_payment_student f) = Some s
                      \<and> student_parent s = Some (parent_pk p)"
  have get: "Parent_objects_get d u = Inr p"
    using assms(3) by (simp add: Parent_objects_get_def objects_get_single)
  have res: "FeePaymentViewSet_get_queryset d u = Inr (mset (filter ?P (fee_payments d)))"
    using assms(1) get
    by (simp add: FeePaymentViewSet_get_queryset_def except_DoesNotExist_none_bag_def)
  have PQ: "?P = ?Q"
    by (rule ext) (simp add: student_parent_is_def split: option.splits)
  have bag: "mset (filter ?P (fee_payments d)) = filter_mset ?Q (mset (fee_payments d))"
    by (simp only: PQ mset_filter)
  have all: "\<forall>f s. f \<in># filter_mset ?Q (mset (fee_payments d))
                    \<and> student_of d (fee_payment_student f) = Some s
                  \<longrightarrow> student_parent s = Some (parent_pk p)"
    by auto
  have res': "FeePaymentViewSet_get_queryset d u = Inr (filter_mset ?Q (mset (fee_payments d)))"
    using res bag by (simp only:)
  show ?thesis
  proof (intro exI conjI)
    show "FeePaymentViewSet_get_queryset d u = Inr (filter_mset ?Q (mset (fee_payments d)))" by (rule res')
    show "filter_mset ?Q (mset (fee_payments d)) = filter_mset ?Q (mset (fee_payments d))" by (rule refl)
    show "\<forall>f s. f \<in># filter_mset ?Q (mset (fee_payments d))
                    \<and> student_of d (fee_payment_student f) = Some s
                  \<longrightarrow> student_parent s = Some (parent_pk p)" by (rule all)
  qed
qed

theorem fee_payment_parent_scope_witness:
  "role (mk_user 11 ''parent'') = ''parent''
   \<and> parent_user parent_b = user_pk (mk_user 11 ''parent'')
   \<and> filter (\<lambda>x. parent_user x = user_pk (mk_user 11 ''parent'')) (parents school) = [parent_b]
   \<and> FeePaymentViewSet_get_queryset school (mk_user 11 ''parent'')
       = Inr {#mk_fee_payment 2 2, mk_fee_payment 3 4, mk_fee_payment 4 2#}"
proof -
  have h: "role (mk_user 11 ''parent'') = ''parent''"
    "parent_user parent_b = user_pk (mk_user 11 ''parent'')"
    "filter (\<lambda>x. parent_user x = user_pk (mk_user 11 ''parent'')) (parents school) = [parent_b]"
    by (simp_all add: fixture_defs)
  from fee_payment_parent_scope [OF h]
  have "FeePaymentViewSet_get_queryset school (mk_user 11 ''parent'')
          = Inr (filter_mset
                 (\<lambda>f. \<exists>s. student_of school (fee_payment_student f) = Some s
                      \<and> student_parent s = Some (parent_pk parent_b))
                 (mset (fee_payments school)))"
    by blast
  also have "\<dots> = Inr {#mk_fee_payment 2 2, mk_fee_payment 3 4, mk_fee_payment 4 2#}"
    by (simp add: student_of_def fixture_defs)
  finally show ?thesis using h by simp
qed

subsection \<open>Content listed by a teacher\<close>

text \<open>
  Claim C7 says that a teacher lists only the Content rows that teacher uploaded. The
  listing has no teacher branch: in the sample database the teacher with profile 1
  receives both Content rows, one of them uploaded by teacher 2, where the claim allows
  only the one row that teacher 1 uploaded.
\<close>

theorem content_list_teacher_at_school:
  "role (mk_user 2 ''teacher'') = ''teacher''
   \<and> filter (\<lambda>x. teacher_user x = user_pk (mk_user 2 ''teacher'')) (teachers school)
       = [mk_teacher 1 2]
   \<and> ContentViewSet_get_queryset school (mk_user 2 ''teacher'')
       = Inr [mk_content 1 ''Grade 1'' 1, mk_content 2 ''Grade 2'' 2]
   \<and> content_authored_by school (mk_teacher 1 2) = [mk_content 1 ''Grade 1'' 1]
   \<and> content_uploaded_by (mk_content 2 ''Grade 2'' 2) \<noteq> teacher_pk (mk_teacher 1 2)"
  by (simp add: ContentViewSet_get_queryset_def content_authored_by_def fixture_defs)

subsection \<open>Listings of a caller without the profile of its role\<close>

text \<open>
  Claim C6 says that every one of the seven role-scoped listings is empty for every caller
  whose role names a profile the caller lacks. In the sample database a \<open>parent\<close> without
  a Parent row lists the whole Timetable: that listing has no branch for a parent.
\<close>

theorem missing_profile_empty_counterexample:
  "role (mk_user 7 ''parent'') = ''parent''
   \<and> \<not> has_parent_profile school (mk_user 7 ''parent'')
   \<and> TimetableViewSet_get_queryset school (mk_user 7 ''parent'')
       = Inr {#mk_timetable 1 1, mk_timetable 2 4, mk_timetable 3 3, mk_timetable 4 2,
               mk_timetable 5 4#}
   \<and> TimetableViewSet_get_queryset school (mk_user 7 ''parent'') \<noteq> Inr {#}"
  by (simp add: TimetableViewSet_get_queryset_def profile_defs fixture_defs)

text \<open>
  Claim C6, amended. A caller whose role names a profile it lacks gets the empty result,
  and no error, from every listing that scopes that role through the profile: role
  \<open>student\<close> on Student, Timetable, Content, Assessment, Submission, Attendance and
  FeePayment; role \<open>teacher\<close> on Timetable, Assessment, Submission and Attendance; role
  \<open>parent\<close> on Student and FeePayment. The Timetable listing is not scoped for a
  \<open>parent\<close> and returns every row, with or without a Parent profile. Nothing is said
  here about the Content listing of a \<open>teacher\<close>.
\<close>

theorem missing_profile_empty:
  "(role u = ''student'' \<and> \<not> has_student_profile d u \<longrightarrow>
      StudentViewSet_get_queryset d u = Inr []
      \<and> TimetableViewSet_get_queryset d u = Inr {#}
      \<and> ContentViewSet_get_queryset d u = Inr []
      \<and> AssessmentViewSet_get_queryset d u = Inr {#}
      \<and> SubmissionViewSet_get_queryset d u = Inr {#}
      \<and> AttendanceViewSet_get_queryset d u = Inr []
      \<and> FeePaymentViewSet_get_queryset d u = Inr {#})
   \<and> (role u = ''teacher'' \<and> \<not> has_teacher_profile d u \<longrightarrow>
      TimetableViewSet_get_queryset d u = Inr {#}
      \<and> AssessmentViewSet_get_queryset d u = Inr {#}
      \<and> SubmissionViewSet_get_queryset d u = Inr {#}
      \<and> AttendanceViewSet_get_queryset d u = Inr [])
   \<and> (role u = ''parent'' \<and> \<not> has_parent_profile d u \<longrightarrow>
      StudentViewSet_get_queryset d u = Inr []
      \<and> FeePaymentViewSet_get_queryset d u = Inr {#})
   \<and> (role u = ''parent'' \<longrightarrow>
      TimetableViewSet_get_queryset d u = Inr (mset (timetables d)))"
proof (intro conjI impI)
  assume a: "role u = ''student'' \<and> \<not> has_student_profile d u"
  then have g: "Student_objects_get d u = Inl DoesNotExist" by (simp add: no_student_get)
  from a have "filter (\<lambda>s. student_user s = user_pk u) (students d) = []"
    by (simp add: has_student_profile_def list_ex_iff filter_empty_conv)
  with a show "StudentViewSet_get_queryset d u = Inr []"
    by (simp add: StudentViewSet_get_queryset_def)
  from a g show "TimetableViewSet_get_queryset d u = Inr {#}"
    by (simp add: TimetableViewSet_get_queryset_def except_DoesNotExist_none_bag_def)
  from a g show "ContentViewSet_get_queryset d u = Inr []"
    by (simp add: ContentViewSet_get_queryset_def except_DoesNotExist_none_def)
  from a g show "AssessmentViewSet_get_queryset d u = Inr {#}"
    by (simp add: AssessmentViewSet_get_queryset_def except_DoesNotExist_none_bag_def)
  from a g show "SubmissionViewSet_get_queryset d u = Inr {#}"
    by (simp add: SubmissionViewSet_get_queryset_def except_DoesNotExist_none_bag_def)
  from a g show "AttendanceViewSet_get_queryset d u = Inr []"
    by (simp add: AttendanceViewSet_get_queryset_def except_DoesNotExist_none_def)
  from a g show "FeePaymentViewSet_get_queryset d u = Inr {#}"
    by (simp add: FeePaymentViewSet_get_queryset_def except_DoesNotExist_none_bag_def)
next
  assume a: "role u = ''teacher'' \<and> \<not> has_teacher_profile d u"
  then have g: "Teacher_objects_get d u = Inl DoesNotExist" by (simp add: no_teacher_get)
  from a g show "TimetableViewSet_get_queryset d u = Inr {#}"
    by (simp add: TimetableViewSet_get_queryset_def except_DoesNotExist_none_bag_def)
  from a g show "AssessmentViewSet_get_queryset d u = Inr {#}"
    by (simp add: AssessmentViewSet_get_queryset_def except_DoesNotExist_none_bag_def)
  from a g show "SubmissionViewSet_get_queryset d u = Inr {#}"
    by (simp add: SubmissionViewSet_get_queryset_def except_DoesNotExist_none_bag_def)
  from a g show "AttendanceViewSet_get_queryset d u = Inr []"
    by (simp add: AttendanceViewSet_get_queryset_def except_DoesNotExist_none_def)
next
  assume a: "role u = ''parent'' \<and> \<not> has_parent_profile d u"
  then have g: "Parent_objects_get d u = Inl DoesNotExist" by (simp add: no_parent_get)
  from a g show "StudentViewSet_get_queryset d u = Inr []"
    by (simp add: StudentViewSet_get_queryset_def except_DoesNotExist_none_def)
  from a g show "FeePaymentViewSet_get_queryset d u = Inr {#}"
    by (simp add: FeePaymentViewSet_get_queryset_def except_DoesNotExist_none_bag_def)
next
  assume a: "role u = ''parent''"
  from a show "TimetableViewSet_get_queryset d u = Inr (mset (timetables d))"
    by (simp add: TimetableViewSet_get_queryset_def)
qed

theorem missing_profile_empty_witness:
  "\<not> has_student_profile school (mk_user 6 ''student'')
   \<and> StudentViewSet_get_queryset school (mk_user 6 ''student'') = Inr []
   \<and> TimetableViewSet_get_queryset school (mk_user 6 ''student'') = Inr {#}
   \<and> ContentViewSet_get_queryset school (mk_user 6 ''student'') = Inr []
   \<and> AssessmentViewSet_get_queryset school (mk_user 6 ''student'') = Inr {#}
   \<and> SubmissionViewSet_get_queryset school (mk_user 6 ''student'') = Inr {#}
   \<and> AttendanceViewSet_get_queryset school (mk_user 6 ''student'') = Inr []
   \<and> FeePaymentViewSet_get_queryset school (mk_user 6 ''student'') = Inr {#}
   \<and> \<not> has_teacher_profile school (mk_user 5 ''teacher'')
   \<and> TimetableViewSet_get_queryset school (mk_user 5 ''teacher'') = Inr {#}
   \<and> AssessmentViewSet_get_queryset school (mk_user 5 ''teacher'') = Inr {#}
   \<and> SubmissionViewSet_get_queryset school (mk_user 5 ''teacher'') = Inr {#}
   \<and> AttendanceViewSet_get_queryset school (mk_user 5 ''teacher'') = Inr []
   \<and> \<not> has_parent_profile school (mk_user 7 ''parent'')
   \<and> StudentViewSet_get_queryset school (mk_user 7 ''parent'') = Inr []
   \<and> FeePaymentViewSet_get_queryset school (mk_user 7 ''parent'') = Inr {#}
   \<and> TimetableViewSet_get_queryset school (mk_user 7 ''parent'') = Inr (mset (timetables school))"
proof -
  have s: "role (mk_user 6 ''student'') = ''student'' \<and> \<not> has_student_profile school (mk_user 6 ''student'')"
    by (simp add: profile_defs fixture_defs)
  have t: "role (mk_user 5 ''teacher'') = ''teacher'' \<and> \<not> has_teacher_profile school (mk_user 5 ''teacher'')"
    by (simp add: profile_defs fixture_defs)
  have p: "role (mk_user 7 ''parent'') = ''parent'' \<and> \<not> has_parent_profile school (mk_user 7 ''parent'')"
    by (simp add: profile_defs fixture_defs)
  show ?thesis
    using s t p
      missing_profile_empty [of "mk_user 6 ''student''" school]
      missing_profile_empty [of "mk_user 5 ''teacher''" school]
      missing_profile_empty [of "mk_user 7 ''parent''" school]
    by blast
qed

subsection \<open>Dashboards of a caller without a profile\<close>

text \<open>
  Claim C9. A caller who has no Teacher, Student or Parent profile (whatever its role, so in
  particular with the matching role \<open>teacher\<close>, \<open>student\<close> or \<open>parent\<close>) gets from the
  teacher, student or parent dashboard the status 404 with a message naming the missing
  profile, and nothing else: no other status and no exception.
\<close>

theorem dashboard_missing_profile_404:
  "(\<not> has_teacher_profile d u \<longrightarrow>
      teacher_dashboard d now u = Inr (Response 404 (Error_body ''Teacher profile not found'')))
   \<and> (\<not> has_student_profile d u \<longrightarrow>
      student_dashboard join_order d now u
        = Inr (Response 404 (Error_body ''Student profile not found'')))
   \<and> (\<not> has_parent_profile d u \<longrightarrow>
      parent_dashboard d u = Inr (Response 404 (Error_body ''Parent profile not found'')))"
  by (simp add: teacher_dashboard_def student_dashboard_def parent_dashboard_def
      no_teacher_get no_student_get no_parent_get)

theorem dashboard_missing_profile_404_witness:
  "role (mk_user 5 ''teacher'') = ''teacher''
   \<and> \<not> has_teacher_profile school (mk_user 5 ''teacher'')
   \<and> teacher_dashboard school 0 (mk_user 5 ''teacher'')
       = Inr (Response 404 (Error_body ''Teacher profile not found''))
   \<and> role (mk_user 6 ''student'') = ''student''
   \<and> \<not> has_student_profile school (mk_user 6 ''student'')
   \<and> student_dashboard rev school 0 (mk_user 6 ''student'')
       = Inr (Response 404 (Error_body ''Student profile not found''))
   \<and> role (mk_user 7 ''parent'') = ''parent''
   \<and> \<not> has_parent_profile school (mk_user 7 ''parent'')
   \<and> parent_dashboard school (mk_user 7 ''parent'')
       = Inr (Response 404 (Error_body ''Parent profile not found''))"
proof -
  have t: "\<not> has_teacher_profile school (mk_user 5 ''teacher'')"
    by (simp add: profile_defs fixture_defs)
  have s: "\<not> has_student_profile school (mk_user 6 ''student'')"
    by (simp add: profile_defs fixture_defs)
  have p: "\<not> has_parent_profile school (mk_user 7 ''parent'')"
    by (simp add: profile_defs fixture_defs)
  show ?thesis
    using t s p
      dashboard_missing_profile_404 [of school "mk_user 5 ''teacher''" 0 rev]
      dashboard_missing_profile_404 [of school "mk_user 6 ''student''" 0 rev]
      dashboard_missing_profile_404 [of school "mk_user 7 ''parent''" 0 rev]
    by (simp add: mk_user_def)
qed

subsection \<open>Content created by a teacher\<close>

lemma fold_max_ge_start: "a \<le> fold max ks (a::nat)"
proof (induction ks arbitrary: a)
  case Nil
  show ?case by simp
next
  case (Cons k ks)
  have "a \<le> max k a" by simp
  also have "\<dots> \<le> fold max ks (max k a)" by (rule Cons.IH)
  finally show ?case by simp
qed

lemma fold_max_ge_member: "k \<in> set ks \<Longrightarrow> k \<le> fold max ks (a::nat)"
proof (induction ks arbitrary: a)
  case Nil
  then show ?case by simp
next
  case (Cons x ks)
  show ?case
  proof (cases "k = x")
    case True
    have "k \<le> max x a" using True by simp
    also have "\<dots> \<le> fold max ks (max x a)" by (rule fold_max_ge_start)
    finally show ?thesis by simp
  next
    case False
    with Cons.prems have "k \<in> set ks" by simp
    then have "k \<le> fold max ks (max x a)" by (rule Cons.IH)
    then show ?thesis by simp
  qed
qed

lemma next_pk_fresh: "next_pk seq ks \<notin> set ks" and next_pk_above_seq: "seq < next_pk seq ks"
proof -
  show "next_pk seq ks \<notin> set ks"
  proof
    assume "next_pk seq ks \<in> set ks"
    then have "next_pk seq ks \<le> fold max ks 0" by (rule fold_max_ge_member)
    then show False by (simp add: next_pk_def)
  qed
  show "seq < next_pk seq ks" by (simp add: next_pk_def)
qed

text \<open>
  Claim C5. When a caller with role \<open>teacher\<close> creates Content, the stored row has
  \<open>uploaded_by\<close> set to the caller's own Teacher profile (the one Teacher row \<open>t\<close> whose
  user is the caller) whatever the payload \<open>v\<close> says; its other columns are the payload's,
  with the current time as upload date and a primary key that no stored row has and that
  lies above the key sequence. A \<open>teacher\<close> caller for whom the profile lookup raises
  stores no row.
\<close>

theorem content_create_uploaded_by:
  assumes "role u = ''teacher''"
  shows "(\<forall>t. teacher_user t = user_pk u
               \<and> filter (\<lambda>x. teacher_user x = user_pk u) (teachers d) = [t] \<longrightarrow>
            (\<exists>row. ContentViewSet_perform_create d u now v
                      = (d\<lparr>contents := contents d @ [row], content_seq := content_pk row\<rparr>,
                         Inr (Some row))
                  \<and> content_uploaded_by row = teacher_pk t
                  \<and> row = v\<lparr>content_pk := content_pk row, content_upload_date := now,
                            content_uploaded_by := teacher_pk t\<rparr>
                  \<and> content_pk row \<notin> set (map content_pk (contents d))
                  \<and> content_seq d < content_pk row))
         \<and> (\<forall>e. Teacher_objects_get d u = Inl e \<longrightarrow>
            ContentViewSet_perform_create d u now v = (d, Inl e))"
proof (intro conjI allI impI)
  fix t
  assume t: "teacher_user t = user_pk u
               \<and> filter (\<lambda>x. teacher_user x = user_pk u) (teachers d) = [t]"
  then have get: "Teacher_objects_get d u = Inr t"
    by (simp add: Teacher_objects_get_def objects_get_single)
  define k where "k = next_pk (content_seq d) (map content_pk (contents d))"
  define row where "row = v\<lparr>content_uploaded_by := teacher_pk t, content_pk := k,
                             content_upload_date := now\<rparr>"
  have pc: "ContentViewSet_perform_create d u now v
              = (d\<lparr>contents := contents d @ [row], content_seq := content_pk row\<rparr>,
                 Inr (Some row))"
    using assms get
    by (simp add: ContentViewSet_perform_create_def Content_objects_create_def saved_def Let_def
        row_def k_def)
  have up: "content_uploaded_by row = teacher_pk t" by (simp add: row_def)
  have eq: "row = v\<lparr>content_pk := content_pk row, content_upload_date := now,
                      content_uploaded_by := teacher_pk t\<rparr>"
    by (simp add: row_def)
  have fresh: "content_pk row \<notin> set (map content_pk (contents d))"
    using next_pk_fresh [of "content_seq d" "map content_pk (contents d)"]
    by (simp add: row_def k_def)
  have above: "content_seq d < content_pk row"
    using next_pk_above_seq [of "content_seq d" "map content_pk (contents d)"]
    by (simp add: row_def k_def)
  from pc up eq fresh above
  show "\<exists>row. ContentViewSet_perform_create d u now v
                      = (d\<lparr>contents := contents d @ [row], content_seq := content_pk row\<rparr>,
                         Inr (Some row))
                  \<and> content_uploaded_by row = teacher_pk t
                  \<and> row = v\<lparr>content_pk := content_pk row, content_upload_date := now,
                            content_uploaded_by := teacher_pk t\<rparr>
                  \<and> content_pk row \<notin> set (map content_pk (contents d))
                  \<and> content_seq d < content_pk row"
    by blast
next
  fix e
  assume "Teacher_objects_get d u = Inl e"
  with assms show "ContentViewSet_perform_create d u now v = (d, Inl e)"
    by (simp add: ContentViewSet_perform_create_def)
qed

theorem content_create_uploaded_by_witness:
  "role (mk_user 4 ''teacher'') = ''teacher''
   \<and> teacher_user (mk_teacher 2 4) = user_pk (mk_user 4 ''teacher'')
   \<and> filter (\<lambda>x. teacher_user x = user_pk (mk_user 4 ''teacher'')) (teachers school)
       = [mk_teacher 2 4]
   \<and> content_uploaded_by (mk_content 0 ''Grade 2'' 1) = 1
   \<and> teacher_pk (mk_teacher 2 4) = 2
   \<and> ContentViewSet_perform_create school (mk_user 4 ''teacher'') 7 (mk_content 0 ''Grade 2'' 1)
       = (school\<lparr>contents :=
             contents school @ [(mk_content 3 ''Grade 2'' 2)\<lparr>content_upload_date := 7\<rparr>],
             content_seq := 3\<rparr>,
          Inr (Some ((mk_content 3 ''Grade 2'' 2)\<lparr>content_upload_date := 7\<rparr>)))"
proof -
  have r: "role (mk_user 4 ''teacher'') = ''teacher''" by (simp add: mk_user_def)
  have t: "teacher_user (mk_teacher 2 4) = user_pk (mk_user 4 ''teacher'')
     \<and> filter (\<lambda>x. teacher_user x = user_pk (mk_user 4 ''teacher'')) (teachers school)
       = [mk_teacher 2 4]"
    by (simp add: fixture_defs)
  have g: "Teacher_objects_get school (mk_user 4 ''teacher'') = Inr (mk_teacher 2 4)"
    using t by (simp add: Teacher_objects_get_def objects_get_single)
  have n: "next_pk (content_seq school) (map content_pk (contents school)) = 3"
    by (simp add: next_pk_def fixture_defs)
  from content_create_uploaded_by [OF r, of school 7 "mk_content 0 ''Grade 2'' 1"] t
  obtain row where
    row: "ContentViewSet_perform_create school (mk_user 4 ''teacher'') 7
            (mk_content 0 ''Grade 2'' 1)
            = (school\<lparr>contents := contents school @ [row], content_seq := content_pk row\<rparr>,
               Inr (Some row))"
    and "content_uploaded_by row = teacher_pk (mk_teacher 2 4)"
    by blast
  have cr: "ContentViewSet_perform_create school (mk_user 4 ''teacher'') 7
            (mk_content 0 ''Grade 2'' 1)
       = (school\<lparr>contents :=
             contents school @ [(mk_content 3 ''Grade 2'' 2)\<lparr>content_upload_date := 7\<rparr>],
             content_seq := 3\<rparr>,
          Inr (Some ((mk_content 3 ''Grade 2'' 2)\<lparr>content_upload_date := 7\<rparr>)))"
    using r g n
    by (simp add: ContentViewSet_perform_create_def Content_objects_create_def saved_def Let_def
        mk_content_def mk_teacher_def)
  with row have rowEq: "row = (mk_content 3 ''Grade 2'' 2)\<lparr>content_upload_date := 7\<rparr>"
    by simp
  have pk3: "content_pk ((mk_content 3 ''Grade 2'' 2)\<lparr>content_upload_date := 7\<rparr>) = 3"
    by (simp add: mk_content_def)
  from row have fin: "ContentViewSet_perform_create school (mk_user 4 ''teacher'') 7
            (mk_content 0 ''Grade 2'' 1)
       = (school\<lparr>contents :=
             contents school @ [(mk_content 3 ''Grade 2'' 2)\<lparr>content_upload_date := 7\<rparr>],
             content_seq := 3\<rparr>,
          Inr (Some ((mk_content 3 ''Grade 2'' 2)\<lparr>content_upload_date := 7\<rparr>)))"
    by (simp only: rowEq pk3)
  have c1: "content_uploaded_by (mk_content 0 ''Grade 2'' 1) = 1" by (simp add: mk_content_def)
  have c2: "teacher_pk (mk_teacher 2 4) = 2" by (simp add: mk_teacher_def)
  from r t c1 c2 fin show ?thesis by blast
qed

subsection \<open>Creating with a role that does not own the resource\<close>

text \<open>
  Claim C10. When the caller is not a \<open>teacher\<close>, creating Content or Attendance stores
  nothing, and when the caller is not a \<open>student\<close>, creating a Submission stores nothing:
  \<open>perform_create\<close> returns without saving and leaves the state as it was. It raises
  nothing either, so the create action still answers 201.
\<close>

theorem create_wrong_role_no_row:
  "(role u \<noteq> ''teacher'' \<longrightarrow>
      ContentViewSet_perform_create d u now c = (d, Inr None)
      \<and> create_status (ContentViewSet_perform_create d u now c) = Inr 201)
   \<and> (role u \<noteq> ''teacher'' \<longrightarrow>
      AttendanceViewSet_perform_create d u a = (d, Inr None)
      \<and> create_status (AttendanceViewSet_perform_create d u a) = Inr 201)
   \<and> (role u \<noteq> ''student'' \<longrightarrow>
      SubmissionViewSet_perform_create d u now b = (d, Inr None)
      \<and> create_status (SubmissionViewSet_perform_create d u now b) = Inr 201)"
  by (simp add: ContentViewSet_perform_create_def AttendanceViewSet_perform_create_def
      SubmissionViewSet_perform_create_def create_status_def)

theorem create_wrong_role_no_row_witness:
  "role (mk_user 8 ''admin'') \<noteq> ''teacher''
   \<and> role (mk_user 8 ''admin'') \<noteq> ''student''
   \<and> ContentViewSet_perform_create school (mk_user 8 ''admin'') 7 (mk_content 0 ''Grade 1'' 1)
       = (school, Inr None)
   \<and> AttendanceViewSet_perform_create school (mk_user 8 ''admin'') (mk_attendance 12 2 ''absent'')
       = (school, Inr None)
   \<and> SubmissionViewSet_perform_create school (mk_user 8 ''admin'') 7 (mk_submission 0 1 1)
       = (school, Inr None)
   \<and> create_status
        (SubmissionViewSet_perform_create school (mk_user 8 ''admin'') 7 (mk_submission 0 1 1))
       = Inr 201"
proof -
  have r: "role (mk_user 8 ''admin'') \<noteq> ''teacher'' \<and> role (mk_user 8 ''admin'') \<noteq> ''student''"
    by (simp add: mk_user_def)
  show ?thesis
    using r create_wrong_role_no_row [of "mk_user 8 ''admin''" school 7
        "mk_content 0 ''Grade 1'' 1" "mk_attendance 12 2 ''absent''" "mk_submission 0 1 1"]
    by blast
qed

subsection \<open>One submission per assessment and student\<close>








subsection \<open>The attendance percentage\<close>

text \<open>
  The floating-point model is accurate: the exponent brackets its argument, an operation
  errs by at most half a unit in the last place, and so the rounded percentage is the
  float of a decimal with two digits that lies within 0.005 (and the rounding noise of
  three float operations, below \<open>10^-13\<close>) of the exact percentage.
\<close>

lemma pow2_powi: "pow2 e = 2 powi e"
  by (simp add: pow2_def power_int_def power_one_over)

lemma pow2_pos: "0 < pow2 e"
  by (simp add: pow2_def)

lemma pow2_add: "pow2 (a + b) = pow2 a * pow2 b"
  by (simp add: pow2_powi power_int_add)

lemma pow2_mono: "a \<le> b \<Longrightarrow> pow2 a \<le> pow2 b"
  by (simp add: pow2_powi power_int_increasing)

lemma pow2_nat: "pow2 (int n) = 2 ^ n"
  by (simp add: pow2_def)

lemma round_half_even_error: "\<bar>of_int (round_half_even y) - y\<bar> \<le> 1 / 2"
proof -
  have "of_int \<lfloor>y\<rfloor> \<le> y" "y < of_int \<lfloor>y\<rfloor> + 1" by linarith+
  then show ?thesis
    by (auto simp: round_half_even_def Let_def)
qed

lemma round_half_even_nonneg: "0 \<le> y \<Longrightarrow> 0 \<le> round_half_even y"
  by (auto simp: round_half_even_def Let_def)

lemma float_exponent_bounds:
  assumes "0 < x"
  shows "pow2 (float_exponent x) \<le> x \<and> x < pow2 (float_exponent x + 1)"
proof -
  obtain a b where q: "quotient_of x = (a, b)" by (cases "quotient_of x")
  then have b: "0 < b" by (rule quotient_of_denom_pos)
  from q have x: "x = of_int a / of_int b" by (rule quotient_of_div)
  with assms b have a: "0 < a" by (simp add: zero_less_divide_iff)
  let ?la = "bitlen a" and ?lb = "bitlen b"
  have la: "1 \<le> ?la" and lb: "1 \<le> ?lb" using a b by (auto simp: bitlen_alt_def)
  from bitlen_bounds [OF a] have a1: "(2::int) ^ nat (?la - 1) \<le> a" and a2: "a < 2 ^ nat ?la" by auto
  from bitlen_bounds [OF b] have b1: "(2::int) ^ nat (?lb - 1) \<le> b" and b2: "b < 2 ^ nat ?lb" by auto
  have ra1: "pow2 (?la - 1) \<le> of_int a"
  proof -
    have "(of_int ((2::int) ^ nat (?la - 1)) :: rat) \<le> of_int a" using a1 by (simp only: of_int_le_iff)
    then show ?thesis using la by (simp add: pow2_def)
  qed
  have ra2: "of_int a < pow2 ?la"
  proof -
    have "(of_int a :: rat) < of_int ((2::int) ^ nat ?la)" using a2 by (simp only: of_int_less_iff)
    then show ?thesis using la by (simp add: pow2_def)
  qed
  have rb1: "pow2 (?lb - 1) \<le> of_int b"
  proof -
    have "(of_int ((2::int) ^ nat (?lb - 1)) :: rat) \<le> of_int b" using b1 by (simp only: of_int_le_iff)
    then show ?thesis using lb by (simp add: pow2_def)
  qed
  have rb2: "of_int b < pow2 ?lb"
  proof -
    have "(of_int b :: rat) < of_int ((2::int) ^ nat ?lb)" using b2 by (simp only: of_int_less_iff)
    then show ?thesis using lb by (simp add: pow2_def)
  qed
  have bpos: "(0::rat) < of_int b" using b by simp
  have lower: "pow2 (?la - ?lb - 1) < x"
  proof -
    have "pow2 (?la - ?lb - 1) * pow2 ?lb = pow2 (?la - 1)"
      by (simp add: pow2_add [symmetric])
    have "pow2 (?la - ?lb - 1) * of_int b < pow2 (?la - ?lb - 1) * pow2 ?lb"
      using rb2 pow2_pos by (simp add: mult_strict_left_mono)
    also have "\<dots> = pow2 (?la - 1)" by (simp add: pow2_add [symmetric])
    also have "\<dots> \<le> of_int a" by (rule ra1)
    finally show ?thesis using bpos by (simp add: x pos_less_divide_eq)
  qed
  have upper: "x < pow2 (?la - ?lb + 1)"
  proof -
    have "of_int a < pow2 ?la" by (rule ra2)
    also have "\<dots> = pow2 (?la - ?lb + 1) * pow2 (?lb - 1)" by (simp add: pow2_add [symmetric])
    also have "\<dots> \<le> pow2 (?la - ?lb + 1) * of_int b"
      using rb1 pow2_pos by (simp add: mult_left_mono less_imp_le)
    finally show ?thesis using bpos by (simp add: x pos_divide_less_eq)
  qed
  have fe: "float_exponent x = (if pow2 (?la - ?lb) \<le> x then ?la - ?lb else ?la - ?lb - 1)"
    by (simp add: float_exponent_def q Let_def)
  show ?thesis
  proof (cases "pow2 (?la - ?lb) \<le> x")
    case True
    with fe upper show ?thesis by simp
  next
    case False
    with fe lower show ?thesis by (simp add: less_imp_le)
  qed
qed


lemma to_float_error:
  assumes "0 \<le> x"
  shows "\<bar>to_float x - x\<bar> \<le> x / 2 ^ 53 + 1 / 2 ^ 53" and "0 \<le> to_float x"
proof -
  have both: "\<bar>to_float x - x\<bar> \<le> x / 2 ^ 53 + 1 / 2 ^ 53 \<and> 0 \<le> to_float x"
  proof (cases "x = 0")
    case True
    then show ?thesis by (simp add: to_float_def)
  next
    case False
    with assms have pos: "0 < x" by simp
    define e where "e = max (float_exponent x) (- 1022)"
    define ulp where "ulp = pow2 (e - 52)"
    have ulp: "0 < ulp" by (simp add: ulp_def pow2_pos)
    have tf: "to_float x = of_int (round_half_even (x / ulp)) * ulp"
      using False pos by (simp add: to_float_def e_def ulp_def Let_def abs_of_pos)
    have "\<bar>to_float x - x\<bar> = \<bar>of_int (round_half_even (x / ulp)) - x / ulp\<bar> * ulp"
    proof -
      have "to_float x - x = (of_int (round_half_even (x / ulp)) - x / ulp) * ulp"
        using ulp by (simp add: tf algebra_simps)
      then show ?thesis using ulp by (simp add: abs_mult abs_of_pos)
    qed
    also have "\<dots> \<le> (1 / 2) * ulp"
      using round_half_even_error [of "x / ulp"] ulp by (intro mult_right_mono) simp_all
    finally have half: "\<bar>to_float x - x\<bar> \<le> ulp / 2" by simp
    have "ulp / 2 \<le> x / 2 ^ 53 + 1 / 2 ^ 53"
    proof (cases "- 1022 \<le> float_exponent x")
      case True
      then have "e = float_exponent x" by (simp add: e_def)
      then have "ulp = pow2 (float_exponent x) * pow2 (- 52)"
        by (simp add: ulp_def pow2_add [symmetric])
      moreover have "pow2 (float_exponent x) \<le> x"
        using float_exponent_bounds [OF pos] by simp
      ultimately have "ulp \<le> x * pow2 (- 52)"
        using pow2_pos [of "- 52"] by (simp add: mult_right_mono)
      then have "ulp / 2 \<le> x / 2 ^ 53" by (simp add: pow2_def)
      then show ?thesis by simp
    next
      case False
      then have "e = - 1022" by (simp add: e_def)
      then have "ulp = pow2 (- 1074)" by (simp add: ulp_def)
      also have "\<dots> \<le> pow2 (- 52)" by (rule pow2_mono) simp
      finally have "ulp / 2 \<le> 1 / 2 ^ 53" by (simp add: pow2_def)
      moreover have "0 \<le> x / 2 ^ 53" using assms by simp
      ultimately show ?thesis by linarith
    qed
    with half have "\<bar>to_float x - x\<bar> \<le> x / 2 ^ 53 + 1 / 2 ^ 53" by linarith
    moreover have "0 \<le> to_float x"
      using ulp pos by (simp add: tf round_half_even_nonneg less_imp_le)
    ultimately show ?thesis by simp
  qed
  from both show "\<bar>to_float x - x\<bar> \<le> x / 2 ^ 53 + 1 / 2 ^ 53" by simp
  from both show "0 \<le> to_float x" by simp
qed

lemma percentage_accuracy:
  assumes "k \<le> n" and "0 < n"
  shows "\<exists>z. py_round (float_mul (to_float (of_nat k / of_nat n)) 100) 2
                = to_float (of_int z / 100)
             \<and> \<bar>rat_of_int z / 100 - 100 * of_nat k / of_nat n\<bar> \<le> 1 / 200 + 1 / 10 ^ 13"
    and "\<bar>py_round (float_mul (to_float (of_nat k / of_nat n)) 100) 2 - 100 * of_nat k / of_nat n\<bar>
           \<le> 1 / 200 + 1 / 10 ^ 13"
proof -
  define x :: rat where "x = of_nat k / of_nat n"
  define q where "q = to_float x"
  define m where "m = to_float (q * 100)"
  define y :: rat where "y = of_int (round_half_even (m * 10 ^ 2)) / 10 ^ 2"
  define r where "r = to_float y"
  let ?u = "(1::rat) / 2 ^ 53"
  have x0: "0 \<le> x" by (simp add: x_def)
  have x1: "x \<le> 1" using assms by (simp add: x_def)
  have q_err: "\<bar>q - x\<bar> \<le> x / 2 ^ 53 + ?u" and q0: "0 \<le> q"
    unfolding q_def by (rule to_float_error [OF x0])+
  have q2: "q \<le> 2"
  proof -
    have "x / 2 ^ 53 + ?u \<le> 1" using x1 x0 by simp
    with q_err x1 show ?thesis by linarith
  qed
  have q100: "0 \<le> q * 100" using q0 by simp
  have m_err: "\<bar>m - q * 100\<bar> \<le> q * 100 / 2 ^ 53 + ?u" and m0: "0 \<le> m"
    unfolding m_def by (rule to_float_error [OF q100])+
  have m201: "m \<le> 201"
  proof -
    have "q * 100 / 2 ^ 53 + ?u \<le> 1" using q2 q0 by simp
    with m_err q2 show ?thesis by linarith
  qed
  have y_err: "\<bar>y - m\<bar> \<le> 1 / 200"
  proof -
    have "y * 100 = of_int (round_half_even (m * 10 ^ 2))" by (simp add: y_def)
    with round_half_even_error [of "m * 10 ^ 2"] have "\<bar>y * 100 - m * 100\<bar> \<le> 1 / 2"
      by simp
    then show ?thesis by linarith
  qed
  have y0: "0 \<le> y" using m0 by (simp add: y_def round_half_even_nonneg)
  have y202: "y \<le> 202" using y_err m201 by linarith
  have r_err: "\<bar>r - y\<bar> \<le> y / 2 ^ 53 + ?u"
    unfolding r_def by (rule to_float_error [OF y0])
  define ea where "ea = y / 2 ^ 53 + ?u"
  define eb where "eb = q * 100 / 2 ^ 53 + ?u"
  define ec where "ec = x / 2 ^ 53 + ?u"
  have r1: "r - y \<le> ea" and r2: "y - r \<le> ea"
    using r_err unfolding ea_def by linarith+
  have y1: "y - m \<le> 1 / 200" and y2: "m - y \<le> 1 / 200"
    using y_err by linarith+
  have m1: "m - q * 100 \<le> eb" and m2: "q * 100 - m \<le> eb"
    using m_err unfolding eb_def by linarith+
  have q1: "q - x \<le> ec" and q2': "x - q \<le> ec"
    using q_err unfolding ec_def by linarith+
  have up: "r - 100 * x \<le> ea + 1 / 200 + eb + 100 * ec" using r1 y1 m1 q1 by linarith
  have lo: "100 * x - r \<le> ea + 1 / 200 + eb + 100 * ec" using r2 y2 m2 q2' by linarith
  have ea: "ea \<le> 203 / 2 ^ 53" unfolding ea_def using y202 by simp
  have eb: "eb \<le> 201 / 2 ^ 53" unfolding eb_def using q2 by simp
  have ec: "ec \<le> 2 / 2 ^ 53" unfolding ec_def using x1 by simp
  from ea eb ec have "ea + 1 / 200 + eb + 100 * ec \<le> 1 / 200 + 1 / 10 ^ 13" by simp
  with up lo have "\<bar>r - 100 * x\<bar> \<le> 1 / 200 + 1 / 10 ^ 13" by linarith
  then show "\<bar>py_round (float_mul (to_float (of_nat k / of_nat n)) 100) 2
                 - 100 * of_nat k / of_nat n\<bar> \<le> 1 / 200 + 1 / 10 ^ 13"
    by (simp add: r_def y_def m_def q_def x_def py_round_def float_mul_def)
  have "y - 100 * x \<le> 1 / 200 + eb + 100 * ec" using y1 m1 q1 by linarith
  moreover have "100 * x - y \<le> 1 / 200 + eb + 100 * ec" using y2 m2 q2' by linarith
  moreover have "1 / 200 + eb + 100 * ec \<le> 1 / 200 + 1 / 10 ^ 13" using eb ec by simp
  ultimately have yx: "\<bar>y - 100 * x\<bar> \<le> 1 / 200 + 1 / 10 ^ 13" by linarith
  have A: "py_round (float_mul (to_float (of_nat k / of_nat n)) 100) 2 = to_float y"
    by (simp add: y_def m_def q_def x_def py_round_def float_mul_def)
  have B: "\<bar>y - 100 * of_nat k / of_nat n\<bar> \<le> 1 / 200 + 1 / 10 ^ 13"
    using yx by (simp only: x_def times_divide_eq_right)
  have "y = rat_of_int (round_half_even (m * 10 ^ 2)) / 100" by (simp add: y_def)
  then obtain z where "y = rat_of_int z / 100" ..
  with A B show "\<exists>z. py_round (float_mul (to_float (of_nat k / of_nat n)) 100) 2
                = to_float (rat_of_int z / 100)
             \<and> \<bar>rat_of_int z / 100 - 100 * of_nat k / of_nat n\<bar> \<le> 1 / 200 + 1 / 10 ^ 13"
    by blast
qed

text \<open>The example of the specification, computed step by step in binary64.\<close>

lemma to_float_8_10: "to_float (8 / 10) = 3602879701896397 / 4503599627370496"
  by code_simp

lemma float_mul_08_100: "float_mul (3602879701896397 / 4503599627370496) 100 = 80"
  by code_simp

lemma py_round_80: "py_round 80 2 = 80"
  by code_simp

lemma percentage_8_of_10: "py_round (float_mul (to_float (of_nat 8 / of_nat 10)) 100) 2 = 80"
  by (simp only: of_nat_numeral to_float_8_10 float_mul_08_100 py_round_80)

lemma present_rows_filter:
  "present_rows d s = filter (\<lambda>a. attendance_student a = student_pk s
                                      \<and> attendance_status a = ''present'') (attendances d)"
  by (simp add: present_rows_def attendance_rows_def conj_commute)

lemma calculate_attendance_percentage_rows:
  "calculate_attendance_percentage d s =
     (if attendance_rows d s = [] then Inr 0
      else Inr (py_round
                  (float_mul
                     (to_float (of_nat (length (present_rows d s))
                                  / of_nat (length (attendance_rows d s))))
                     100)
                  2))"
  by (simp add: calculate_attendance_percentage_def present_rows_filter attendance_rows_def
      int_truediv_def Let_def)

text \<open>
  Claim C1. The attendance percentage of a student is 0 when the student has no Attendance
  row, and otherwise the number of the student's rows with status \<open>present\<close> divided by
  the number of the student's rows, times 100, rounded to 2 decimal places (as Python
  floats: true division, multiplication, \<open>round(x, 2)\<close>); the function never raises.
  The rounded value is the float of a decimal \<open>z / 100\<close> within 0.005, up to the noise
  of the float operations, of the exact percentage. A student with 10 rows of which 8 are
  \<open>present\<close> gets 80.0.
\<close>

theorem attendance_percentage_rounded:
  "calculate_attendance_percentage d s =
     (if attendance_rows d s = [] then Inr 0
      else Inr (py_round
                  (float_mul
                     (to_float (of_nat (length (present_rows d s))
                                  / of_nat (length (attendance_rows d s))))
                     100)
                  2))
   \<and> (attendance_rows d s \<noteq> [] \<longrightarrow>
        (\<exists>r z. calculate_attendance_percentage d s = Inr r
           \<and> r = to_float (rat_of_int z / 100)
           \<and> \<bar>rat_of_int z / 100
                - 100 * of_nat (length (present_rows d s)) / of_nat (length (attendance_rows d s))\<bar>
               \<le> 1 / 200 + 1 / 10 ^ 13
           \<and> \<bar>r - 100 * of_nat (length (present_rows d s)) / of_nat (length (attendance_rows d s))\<bar>
               \<le> 1 / 200 + 1 / 10 ^ 13))
   \<and> (length (attendance_rows d s) = 10 \<and> length (present_rows d s) = 8 \<longrightarrow>
        calculate_attendance_percentage d s = Inr 80)"
proof (intro conjI impI)
  show "calculate_attendance_percentage d s =
     (if attendance_rows d s = [] then Inr 0
      else Inr (py_round
                  (float_mul
                     (to_float (of_nat (length (present_rows d s))
                                  / of_nat (length (attendance_rows d s))))
                     100)
                  2))"
    by (rule calculate_attendance_percentage_rows)
next
  assume ne: "attendance_rows d s \<noteq> []"
  let ?k = "length (present_rows d s)" and ?n = "length (attendance_rows d s)"
  have kn: "?k \<le> ?n" by (simp add: present_rows_def)
  have n: "0 < ?n" using ne by simp
  let ?r = "py_round (float_mul (to_float (of_nat ?k / of_nat ?n)) 100) 2"
  have r: "calculate_attendance_percentage d s = Inr ?r"
    using ne by (simp only: calculate_attendance_percentage_rows if_False)
  from percentage_accuracy(1) [OF kn n] obtain z where
    z: "?r = to_float (rat_of_int z / 100)"
    and zerr: "\<bar>rat_of_int z / 100 - 100 * of_nat ?k / of_nat ?n\<bar> \<le> 1 / 200 + 1 / 10 ^ 13"
    by blast
  from percentage_accuracy(2) [OF kn n]
  have rerr: "\<bar>?r - 100 * of_nat ?k / of_nat ?n\<bar> \<le> 1 / 200 + 1 / 10 ^ 13" .
  from r z zerr rerr
  show "\<exists>r z. calculate_attendance_percentage d s = Inr r
           \<and> r = to_float (rat_of_int z / 100)
           \<and> \<bar>rat_of_int z / 100 - 100 * of_nat ?k / of_nat ?n\<bar> \<le> 1 / 200 + 1 / 10 ^ 13
           \<and> \<bar>r - 100 * of_nat ?k / of_nat ?n\<bar> \<le> 1 / 200 + 1 / 10 ^ 13"
    by blast
next
  assume a: "length (attendance_rows d s) = 10 \<and> length (present_rows d s) = 8"
  then have "attendance_rows d s \<noteq> []" by auto
  with a show "calculate_attendance_percentage d s = Inr 80"
    by (simp only: calculate_attendance_percentage_rows if_False percentage_8_of_10)
qed

theorem attendance_percentage_rounded_witness:
  "length (attendance_rows school student_a) = 10
   \<and> length (present_rows school student_a) = 8
   \<and> calculate_attendance_percentage school student_a = Inr 80
   \<and> attendance_rows school (mk_student 3 10 ''Grade 1'' ''A'' None) = []
   \<and> calculate_attendance_percentage school (mk_student 3 10 ''Grade 1'' ''A'' None) = Inr 0"
proof -
  have l: "length (attendance_rows school student_a) = 10
     \<and> length (present_rows school student_a) = 8"
    by (simp add: present_rows_def attendance_rows_def fixture_defs)
  have e: "attendance_rows school (mk_student 3 10 ''Grade 1'' ''A'' None) = []"
    by (simp add: attendance_rows_def fixture_defs)
  have p: "calculate_attendance_percentage school student_a = Inr 80"
    using l attendance_percentage_rounded [of school student_a] by blast
  have z: "calculate_attendance_percentage school (mk_student 3 10 ''Grade 1'' ''A'' None) = Inr 0"
    using attendance_percentage_rounded [THEN conjunct1, of school "mk_student 3 10 ''Grade 1'' ''A'' None"]
    by (simp add: e)
  from l e p z show ?thesis by blast
qed

subsection \<open>Recent announcements of the admin dashboard\<close>

text \<open>
  What the code returns under \<open>recent_announcements\<close>: the first five active rows in
  table order. The query has no \<open>order_by\<close> and never reads \<open>created_date\<close>.
\<close>

lemma admin_dashboard_recent_announcements_table_order:
  "recent_announcements (data (admin_dashboard d))
     = take 5 (filter announcement_is_active (announcements d))"
  by (simp add: admin_dashboard_def)

text \<open>
  Claim C8 says that \<open>recent_announcements\<close> holds the five most recent active
  announcements, most recent first. In the sample database, whose six active
  announcements are stored in the order of their creation, the code returns the five
  oldest, oldest first, and leaves the most recent one out.
\<close>

theorem admin_dashboard_recent_announcements_at_six:
  "recent_announcements (data (admin_dashboard school))
     = [mk_announcement 1 True, mk_announcement 2 True, mk_announcement 3 True,
        mk_announcement 4 True, mk_announcement 5 True]
   \<and> most_recent_active 5 school
     = [mk_announcement 6 True, mk_announcement 5 True, mk_announcement 4 True,
        mk_announcement 3 True, mk_announcement 2 True]
   \<and> recent_announcements (data (admin_dashboard school)) \<noteq> most_recent_active 5 school"
  by (simp add: admin_dashboard_def most_recent_active_def school_def mk_announcement_def)

end
